theory Spec2Isabelle
  imports Main "HOL-Library.Monad_Syntax" "HOL-Library.AList"
begin

section \<open>The declaration surface used by \<open>lib/wordpress-app-stack.ts\<close>\<close>

text \<open>
  The stack is one constructor that calls the construct library: every \<open>new X(this, id, props)\<close>
  adds a child construct to the stack, and every method call on a construct already created
  (\<open>addIngressRule\<close>, \<open>addListener\<close>, \<open>addContainer\<close>, ...) changes that construct. The
  model keeps the stack as an explicit store: the children in declaration order, each under its
  construct id. A local \<open>const\<close> of the source holds the construct id as its handle, so two
  places of the source that use the same \<open>const\<close> hold the same handle.

  What the construct library itself derives from a declaration when the template is synthesised
  is not code of this repository and is not modelled: a call is recorded with the arguments the
  source gives it. What is modelled of the library is where a call of the source is refused:
  an empty or already used construct id, a second \<open>autoScaleTaskCount\<close>, capacity bounds in
  the wrong order, a service attached to a target group before its container has a port
  mapping, and the checks of \<open>super(scope, id, props)\<close> on the stack's own id and name.
\<close>

type_synonym construct_id = string

text \<open>\<open>cdk.Duration.seconds(n)\<close> and \<open>cdk.Duration.days(n)\<close>.\<close>

datatype Duration = seconds nat | days nat

fun toSeconds :: "Duration \<Rightarrow> nat" where
  "toSeconds (seconds n) = n"
| "toSeconds (days n) = n * 86400"

text \<open>
  A string-valued property is a literal of the source or an attribute of another construct
  that is only known after deployment (\<open>alb.loadBalancerDnsName\<close> and the like).
\<close>

datatype StringValue =
    Literal string
  | loadBalancerDnsName construct_id
  | distributionDomainName construct_id
  | dbInstanceEndpointAddress construct_id

subsection \<open>Network and firewall\<close>

record VpcProps =
  maxAzs :: nat
  natGateways :: nat

datatype SubnetType = PUBLIC | PRIVATE_WITH_EGRESS | PRIVATE_ISOLATED

text \<open>\<open>ec2.Peer.anyIpv4()\<close>, or a security group passed where a peer is expected.\<close>

datatype Peer = anyIpv4 | securityGroupPeer construct_id

datatype Port = tcp nat

record IngressRule =
  rule_peer :: Peer
  rule_connection :: Port
  rule_description :: string

record SecurityGroupProps =
  sg_vpc :: construct_id
  sg_description :: string
  allowAllOutbound :: bool

subsection \<open>Credential store and database\<close>

text \<open>
  The source gives \<open>excludePunctuation\<close> and \<open>passwordLength\<close> only; the two optional
  fields that would make the generated secret a JSON object with further keys are absent.
\<close>

record SecretStringGenerator =
  excludePunctuation :: bool
  passwordLength :: nat
  secretStringTemplate :: "string option"
  generateStringKey :: "string option"

record SecretProps =
  secretName :: string
  generateSecretString :: SecretStringGenerator

datatype MysqlEngineVersion = VER_5_7 | VER_8_0

datatype DatabaseInstanceEngine = mysql MysqlEngineVersion

datatype InstanceClass = BURSTABLE2 | BURSTABLE3

datatype InstanceSize = MICRO | SMALL | MEDIUM

datatype InstanceType = InstanceType_of InstanceClass InstanceSize

text \<open>
  \<open>rds.Credentials.fromSecret(secret, username?)\<close>: the secret, and the master username when
  the caller states one.
\<close>

datatype Credentials = fromSecret construct_id "string option"

fun credentials_secret :: "Credentials \<Rightarrow> construct_id" where
  "credentials_secret (fromSecret s u) = s"

fun credentials_username :: "Credentials \<Rightarrow> string option" where
  "credentials_username (fromSecret s u) = u"

record DatabaseInstanceProps =
  db_engine :: DatabaseInstanceEngine
  db_instanceType :: InstanceType
  db_vpc :: construct_id
  db_vpcSubnets :: SubnetType
  db_securityGroups :: "construct_id list"
  databaseName :: string
  db_credentials :: Credentials
  backupRetention :: Duration
  deletionProtection :: bool
  storageEncrypted :: bool

subsection \<open>Container service\<close>

record ClusterProps =
  cluster_vpc :: construct_id
  containerInsights :: bool

datatype Principal = ServicePrincipal string

record RoleProps =
  assumedBy :: Principal

record FargateTaskDefinitionProps =
  memoryLimitMiB :: nat
  cpu :: nat
  taskRole :: construct_id

datatype ContainerImage = fromRegistry string

datatype LogDriver = awsLogs string

text \<open>\<open>ecs.Secret.fromSecretsManager(secret, field?)\<close>.\<close>

datatype EcsSecret = fromSecretsManager construct_id "string option"

record ContainerDefinitionOptions =
  image :: ContainerImage
  logging :: LogDriver
  environment :: "(string \<times> StringValue) list"
  secrets :: "(string \<times> EcsSecret) list"

record PortMapping =
  containerPort :: nat

datatype ContainerDefinition =
  ContainerDefinition ContainerDefinitionOptions "PortMapping list"

record FargateServiceProps =
  svc_cluster :: construct_id
  svc_taskDefinition :: construct_id
  desiredCount :: nat
  svc_securityGroups :: "construct_id list"
  svc_vpcSubnets :: SubnetType
  assignPublicIp :: bool
  healthCheckGracePeriod :: Duration

record EnableScalingProps =
  minCapacity :: nat
  maxCapacity :: nat

record CpuUtilizationScalingProps =
  targetUtilizationPercent :: nat
  scaleInCooldown :: Duration
  scaleOutCooldown :: Duration

text \<open>
  What \<open>autoScaleTaskCount\<close> returns: the capacity bounds, and the CPU policies added to it
  by \<open>scaleOnCpuUtilization\<close>, each under its id.
\<close>

datatype ScalableTaskCount =
  ScalableTaskCount EnableScalingProps "(construct_id \<times> CpuUtilizationScalingProps) list"

subsection \<open>Load balancer\<close>

record ApplicationLoadBalancerProps =
  alb_vpc :: construct_id
  internetFacing :: bool
  alb_securityGroup :: construct_id

record BaseApplicationListenerProps =
  listener_port :: nat
  listener_open :: bool

record AddApplicationTargetGroupsProps =
  targetGroups :: "construct_id list"

text \<open>A listener, with what \<open>addTargetGroups\<close> has added to it, each call under its id.\<close>

datatype ApplicationListener =
  ApplicationListener BaseApplicationListenerProps
    "(construct_id \<times> AddApplicationTargetGroupsProps) list"

datatype ApplicationProtocol = HTTP | HTTPS

datatype TargetType = INSTANCE | IP | LAMBDA

record HealthCheck =
  hc_path :: string
  hc_interval :: Duration

record ApplicationTargetGroupProps =
  tg_vpc :: construct_id
  tg_port :: nat
  tg_protocol :: ApplicationProtocol
  targetType :: TargetType
  healthCheck :: HealthCheck

subsection \<open>CDN\<close>

datatype OriginProtocolPolicy = HTTP_ONLY | MATCH_VIEWER | HTTPS_ONLY

record LoadBalancerV2OriginProps =
  protocolPolicy :: OriginProtocolPolicy

datatype Origin = LoadBalancerV2Origin construct_id LoadBalancerV2OriginProps

datatype CachePolicy = CACHING_OPTIMIZED | CACHING_DISABLED

text \<open>
  The members \<open>HTTPS_ONLY\<close> and \<open>ALLOW_ALL\<close> of the viewer protocol policy share their
  names with members of the origin protocol policy and of the allowed methods; they are
  written \<open>VIEWER_HTTPS_ONLY\<close> and \<open>ALLOW_ALL_PROTOCOLS\<close> here.
\<close>

datatype ViewerProtocolPolicy = VIEWER_HTTPS_ONLY | REDIRECT_TO_HTTPS | ALLOW_ALL_PROTOCOLS

datatype AllowedMethods = ALLOW_GET_HEAD | ALLOW_GET_HEAD_OPTIONS | ALLOW_ALL

datatype OriginRequestPolicy = ALL_VIEWER | CORS_S3_ORIGIN

datatype PriceClass = PRICE_CLASS_100 | PRICE_CLASS_200 | PRICE_CLASS_ALL

record BehaviorOptions =
  origin :: Origin
  cachePolicy :: CachePolicy
  viewerProtocolPolicy :: ViewerProtocolPolicy
  allowedMethods :: AllowedMethods
  originRequestPolicy :: OriginRequestPolicy
  compress :: bool

record DistributionProps =
  defaultBehavior :: BehaviorOptions
  priceClass :: PriceClass

subsection \<open>Outputs\<close>

record CfnOutputProps =
  output_value :: StringValue
  output_description :: string

subsection \<open>Constructs and the stack\<close>

text \<open>
  A construct is the properties it was created with, together with what later method calls of
  the source have added to it.
\<close>

datatype construct =
    is_Vpc: Vpc VpcProps
  | is_SecurityGroup: SecurityGroup SecurityGroupProps "IngressRule list"
  | is_Secret: Secret SecretProps
  | is_DatabaseInstance: DatabaseInstance DatabaseInstanceProps
  | is_Cluster: Cluster ClusterProps
  | is_ApplicationLoadBalancer: ApplicationLoadBalancer ApplicationLoadBalancerProps
      "(construct_id \<times> ApplicationListener) list"
  | is_Role: Role RoleProps
  | is_FargateTaskDefinition: FargateTaskDefinition FargateTaskDefinitionProps
      "(construct_id \<times> ContainerDefinition) list"
  | is_FargateService: FargateService FargateServiceProps "construct_id list"
      "ScalableTaskCount option"
  | is_ApplicationTargetGroup: ApplicationTargetGroup ApplicationTargetGroupProps
  | is_Distribution: Distribution DistributionProps
  | is_CfnOutput: CfnOutput CfnOutputProps

subsection \<open>Registering a construct in its scope\<close>

text \<open>
  The errors with which the library refuses the creation of a construct or of the stack, and
  \<open>ConstructorFailed\<close> for a constructor body that does not run to its end.
\<close>

datatype Error =
    EmptyId
  | DuplicateName construct_id
  | DescriptionTooLong
  | StackNameTooLong string
  | InvalidStackName string
  | ConstructorFailed

text \<open>A construct id is kept with every path separator \<open>/\<close> replaced by \<open>--\<close>.\<close>

fun sanitizeId :: "string \<Rightarrow> construct_id" where
  "sanitizeId [] = []"
| "sanitizeId (c # cs) = (if c = CHR ''/'' then ''--'' @ sanitizeId cs else c # sanitizeId cs)"

text \<open>
  A new construct is entered in its scope under its id: the library throws on an empty id and
  on an id that a sibling already has.
\<close>

definition Node_addChild :: "construct_id list \<Rightarrow> string \<Rightarrow> Error + construct_id" where
  "Node_addChild siblings id' =
     (let name = sanitizeId id'
      in if name = [] then Inl EmptyId
         else if name \<in> set siblings then Inl (DuplicateName name)
         else Inr name)"

text \<open>
  The stack: the three arguments handed to \<open>super(scope, id, props)\<close> and the children
  declared so far. \<open>Stack_super\<close> is the stack as \<open>super\<close> leaves it when it returns; whether
  it returns is \<open>Stack_new\<close> below.
\<close>

record ('scope, 'props) Stack =
  stack_scope :: 'scope
  stack_id :: string
  stack_props :: "'props option"
  children :: "(construct_id \<times> construct) list"

definition Stack_super :: "'scope \<Rightarrow> string \<Rightarrow> 'props option \<Rightarrow> ('scope, 'props) Stack" where
  "Stack_super scope id' props =
     \<lparr>stack_scope = scope, stack_id = id', stack_props = props, children = []\<rparr>"

text \<open>
  \<open>new X(this, id, props)\<close>: the child is added to the stack; the handle is its id. The call
  is refused, with \<open>None\<close>, where the library refuses the id.
\<close>

definition new :: "string \<Rightarrow> construct \<Rightarrow> ('scope, 'props) Stack
    \<Rightarrow> (construct_id \<times> ('scope, 'props) Stack) option" where
  "new id' c this =
     (case Node_addChild (map fst (children this)) id' of
        Inl e \<Rightarrow> None
      | Inr name \<Rightarrow> Some (name, this\<lparr>children := children this @ [(name, c)]\<rparr>))"

text \<open>
  A method call on a handle reads the construct behind it. The model returns \<open>None\<close> where
  there is no construct of the kind that has the method behind the handle, and where the
  library refuses the call.

  \<open>sg.addIngressRule(peer, connection, description)\<close>: a rule for a peer and a port that the
  group already has a rule for is skipped.
\<close>

definition addIngressRule :: "construct_id \<Rightarrow> Peer \<Rightarrow> Port \<Rightarrow> string
    \<Rightarrow> ('scope, 'props) Stack \<Rightarrow> ('scope, 'props) Stack option" where
  "addIngressRule sg peer connection description this =
     (case map_of (children this) sg of
        Some (SecurityGroup props rules) \<Rightarrow>
          Some (if (peer, connection) \<in> set (map (\<lambda>r. (rule_peer r, rule_connection r)) rules)
            then this
            else this\<lparr>children := AList.update sg
              (SecurityGroup props (rules @
                 [\<lparr>rule_peer = peer, rule_connection = connection,
                   rule_description = description\<rparr>]))
              (children this)\<rparr>)
      | _ \<Rightarrow> None)"

text \<open>
  \<open>alb.addListener(id, props)\<close>: the listener is a construct in the scope of the load
  balancer; its handle is the pair of both ids.
\<close>

definition addListener :: "construct_id \<Rightarrow> construct_id \<Rightarrow> BaseApplicationListenerProps
    \<Rightarrow> ('scope, 'props) Stack
    \<Rightarrow> ((construct_id \<times> construct_id) \<times> ('scope, 'props) Stack) option" where
  "addListener alb id' props this =
     (case map_of (children this) alb of
        Some (ApplicationLoadBalancer albProps listeners) \<Rightarrow>
          (case Node_addChild (map fst listeners) id' of
             Inl e \<Rightarrow> None
           | Inr name \<Rightarrow>
               Some ((alb, name), this\<lparr>children := AList.update alb
                 (ApplicationLoadBalancer albProps
                    (listeners @ [(name, ApplicationListener props [])]))
                 (children this)\<rparr>))
      | _ \<Rightarrow> None)"

definition addTargetGroups :: "construct_id \<times> construct_id \<Rightarrow> construct_id
    \<Rightarrow> AddApplicationTargetGroupsProps \<Rightarrow> ('scope, 'props) Stack
    \<Rightarrow> ('scope, 'props) Stack option" where
  "addTargetGroups listener id' props this =
     (case map_of (children this) (fst listener) of
        Some (ApplicationLoadBalancer albProps listeners) \<Rightarrow>
          (case map_of listeners (snd listener) of
             Some (ApplicationListener lProps added) \<Rightarrow>
               Some (this\<lparr>children := AList.update (fst listener)
                 (ApplicationLoadBalancer albProps
                    (AList.update (snd listener)
                       (ApplicationListener lProps (added @ [(id', props)])) listeners))
                 (children this)\<rparr>)
           | None \<Rightarrow> None)
      | _ \<Rightarrow> None)"

text \<open>
  \<open>taskDefinition.addContainer(id, options)\<close>, the container being a construct in the scope
  of the task definition, and \<open>container.addPortMappings(m)\<close>.
\<close>

definition addContainer :: "construct_id \<Rightarrow> construct_id \<Rightarrow> ContainerDefinitionOptions
    \<Rightarrow> ('scope, 'props) Stack
    \<Rightarrow> ((construct_id \<times> construct_id) \<times> ('scope, 'props) Stack) option" where
  "addContainer taskDefinition id' options this =
     (case map_of (children this) taskDefinition of
        Some (FargateTaskDefinition tdProps containers) \<Rightarrow>
          (case Node_addChild (map fst containers) id' of
             Inl e \<Rightarrow> None
           | Inr name \<Rightarrow>
               Some ((taskDefinition, name), this\<lparr>children := AList.update taskDefinition
                 (FargateTaskDefinition tdProps
                    (containers @ [(name, ContainerDefinition options [])]))
                 (children this)\<rparr>))
      | _ \<Rightarrow> None)"

definition addPortMappings :: "construct_id \<times> construct_id \<Rightarrow> PortMapping
    \<Rightarrow> ('scope, 'props) Stack \<Rightarrow> ('scope, 'props) Stack option" where
  "addPortMappings container mapping this =
     (case map_of (children this) (fst container) of
        Some (FargateTaskDefinition tdProps containers) \<Rightarrow>
          (case map_of containers (snd container) of
             Some (ContainerDefinition options mappings) \<Rightarrow>
               Some (this\<lparr>children := AList.update (fst container)
                 (FargateTaskDefinition tdProps
                    (AList.update (snd container)
                       (ContainerDefinition options (mappings @ [mapping])) containers))
                 (children this)\<rparr>)
           | None \<Rightarrow> None)
      | _ \<Rightarrow> None)"

text \<open>
  \<open>service.attachToApplicationTargetGroup(tg)\<close>: the library takes the first container of
  the service's task definition as the target and throws unless that container has a port
  mapping. \<open>service.autoScaleTaskCount(props)\<close>, whose result lives in the service and is
  reached through the service's handle: the library throws when scaling is already enabled
  and when the maximum is below the minimum. \<open>scaling.scaleOnCpuUtilization(id, props)\<close>:
  the policy is a construct under its id.
\<close>

definition attachToApplicationTargetGroup :: "construct_id \<Rightarrow> construct_id
    \<Rightarrow> ('scope, 'props) Stack \<Rightarrow> ('scope, 'props) Stack option" where
  "attachToApplicationTargetGroup service targetGroup this =
     (case map_of (children this) service of
        Some (FargateService props attached scaling) \<Rightarrow>
          (case map_of (children this) (svc_taskDefinition props) of
             Some (FargateTaskDefinition tdProps
                 ((name, ContainerDefinition options (mapping # mappings)) # containers)) \<Rightarrow>
               Some (this\<lparr>children := AList.update service
                 (FargateService props (attached @ [targetGroup]) scaling) (children this)\<rparr>)
           | _ \<Rightarrow> None)
      | _ \<Rightarrow> None)"

definition autoScaleTaskCount :: "construct_id \<Rightarrow> EnableScalingProps
    \<Rightarrow> ('scope, 'props) Stack \<Rightarrow> (construct_id \<times> ('scope, 'props) Stack) option" where
  "autoScaleTaskCount service props this =
     (case map_of (children this) service of
        Some (FargateService svcProps attached None) \<Rightarrow>
          (if maxCapacity props < minCapacity props then None
           else Some (service, this\<lparr>children := AList.update service
             (FargateService svcProps attached (Some (ScalableTaskCount props [])))
             (children this)\<rparr>))
      | _ \<Rightarrow> None)"

definition scaleOnCpuUtilization :: "construct_id \<Rightarrow> construct_id
    \<Rightarrow> CpuUtilizationScalingProps \<Rightarrow> ('scope, 'props) Stack
    \<Rightarrow> ('scope, 'props) Stack option" where
  "scaleOnCpuUtilization scaling id' props this =
     (case map_of (children this) scaling of
        Some (FargateService svcProps attached (Some (ScalableTaskCount bounds policies))) \<Rightarrow>
          (case Node_addChild (map fst policies) id' of
             Inl e \<Rightarrow> None
           | Inr name \<Rightarrow>
               Some (this\<lparr>children := AList.update scaling
                 (FargateService svcProps attached
                    (Some (ScalableTaskCount bounds (policies @ [(name, props)]))))
                 (children this)\<rparr>))
      | _ \<Rightarrow> None)"

section \<open>The constructor of \<open>WordpressThreeTierStack\<close>\<close>

definition WordpressThreeTierStack :: "'scope \<Rightarrow> string \<Rightarrow> 'props option
    \<Rightarrow> ('scope, 'props) Stack option" where
  "WordpressThreeTierStack scope id' props = do {
     let this = Stack_super scope id' props;

     (vpc, this) \<leftarrow> new ''WordpressVPC'' (Vpc \<lparr>maxAzs = 2, natGateways = 1\<rparr>) this;

     (albSg, this) \<leftarrow> new ''AlbSecurityGroup'' (SecurityGroup
       \<lparr>sg_vpc = vpc, sg_description = ''Security group for ALB'', allowAllOutbound = True\<rparr>
       []) this;
     this \<leftarrow> addIngressRule albSg anyIpv4 (tcp 80) ''Allow HTTP traffic'' this;
     this \<leftarrow> addIngressRule albSg anyIpv4 (tcp 443) ''Allow HTTPS traffic'' this;

     (ecsSg, this) \<leftarrow> new ''EcsSecurityGroup'' (SecurityGroup
       \<lparr>sg_vpc = vpc, sg_description = ''Security group for ECS'', allowAllOutbound = True\<rparr>
       []) this;
     this \<leftarrow> addIngressRule ecsSg (securityGroupPeer albSg) (tcp 80)
       ''Allow traffic from ALB'' this;

     (dbSg, this) \<leftarrow> new ''DbSecurityGroup'' (SecurityGroup
       \<lparr>sg_vpc = vpc, sg_description = ''Security group for RDS'', allowAllOutbound = True\<rparr>
       []) this;
     this \<leftarrow> addIngressRule dbSg (securityGroupPeer ecsSg) (tcp 3306)
       ''Allow MySQL traffic from ECS'' this;

     (dbPassword, this) \<leftarrow> new ''DBPassword'' (Secret
       \<lparr>secretName = ''wordpress-db-password'',
        generateSecretString =
          \<lparr>excludePunctuation = True, passwordLength = 16,
           secretStringTemplate = None, generateStringKey = None\<rparr>\<rparr>) this;

     (dbInstance, this) \<leftarrow> new ''WordpressDatabase'' (DatabaseInstance
       \<lparr>db_engine = mysql VER_8_0,
        db_instanceType = InstanceType_of BURSTABLE3 SMALL,
        db_vpc = vpc,
        db_vpcSubnets = PRIVATE_WITH_EGRESS,
        db_securityGroups = [dbSg],
        databaseName = ''wordpress'',
        db_credentials = fromSecret dbPassword None,
        backupRetention = days 7,
        deletionProtection = False,
        storageEncrypted = True\<rparr>) this;

     (cluster, this) \<leftarrow> new ''WordpressCluster'' (Cluster
       \<lparr>cluster_vpc = vpc, containerInsights = True\<rparr>) this;

     (alb, this) \<leftarrow> new ''WordpressALB'' (ApplicationLoadBalancer
       \<lparr>alb_vpc = vpc, internetFacing = True, alb_securityGroup = albSg\<rparr> []) this;

     (httpListener, this) \<leftarrow> addListener alb ''HttpListener''
       \<lparr>listener_port = 80, listener_open = True\<rparr> this;

     (taskRole, this) \<leftarrow> new ''WordpressTaskRole'' (Role
       \<lparr>assumedBy = ServicePrincipal ''ecs-tasks.amazonaws.com''\<rparr>) this;

     (taskDefinition, this) \<leftarrow> new ''WordpressTaskDef'' (FargateTaskDefinition
       \<lparr>memoryLimitMiB = 2048, cpu = 1024, taskRole = taskRole\<rparr> []) this;

     (wordpressContainer, this) \<leftarrow> addContainer taskDefinition ''WordpressContainer''
       \<lparr>image = fromRegistry ''wordpress:latest'',
        logging = awsLogs ''wordpress'',
        environment =
          [(''WORDPRESS_DB_HOST'', dbInstanceEndpointAddress dbInstance),
           (''WORDPRESS_DB_NAME'', Literal ''wordpress''),
           (''WORDPRESS_DB_USER'', Literal ''admin'')],
        secrets =
          [(''WORDPRESS_DB_PASSWORD'', fromSecretsManager dbPassword None)]\<rparr> this;

     this \<leftarrow> addPortMappings wordpressContainer \<lparr>containerPort = 80\<rparr> this;

     (wordpressService, this) \<leftarrow> new ''WordpressService'' (FargateService
       \<lparr>svc_cluster = cluster,
        svc_taskDefinition = taskDefinition,
        desiredCount = 2,
        svc_securityGroups = [ecsSg],
        svc_vpcSubnets = PRIVATE_WITH_EGRESS,
        assignPublicIp = False,
        healthCheckGracePeriod = seconds 60\<rparr> [] None) this;

     (targetGroup, this) \<leftarrow> new ''WordpressTargetGroup'' (ApplicationTargetGroup
       \<lparr>tg_vpc = vpc,
        tg_port = 80,
        tg_protocol = HTTP,
        targetType = IP,
        healthCheck = \<lparr>hc_path = ''/'', hc_interval = seconds 30\<rparr>\<rparr>) this;

     this \<leftarrow> attachToApplicationTargetGroup wordpressService targetGroup this;
     this \<leftarrow> addTargetGroups httpListener ''WordpressTargetGroup''
       \<lparr>targetGroups = [targetGroup]\<rparr> this;

     (scaling, this) \<leftarrow> autoScaleTaskCount wordpressService
       \<lparr>minCapacity = 2, maxCapacity = 10\<rparr> this;

     this \<leftarrow> scaleOnCpuUtilization scaling ''CpuScaling''
       \<lparr>targetUtilizationPercent = 70,
        scaleInCooldown = seconds 60,
        scaleOutCooldown = seconds 60\<rparr> this;

     (distribution, this) \<leftarrow> new ''WordpressDistribution'' (Distribution
       \<lparr>defaultBehavior =
          \<lparr>origin = LoadBalancerV2Origin alb \<lparr>protocolPolicy = HTTP_ONLY\<rparr>,
           cachePolicy = CACHING_OPTIMIZED,
           viewerProtocolPolicy = REDIRECT_TO_HTTPS,
           allowedMethods = ALLOW_ALL,
           originRequestPolicy = ALL_VIEWER,
           compress = True\<rparr>,
        priceClass = PRICE_CLASS_100\<rparr>) this;

     (_, this) \<leftarrow> new ''LoadBalancerDNS'' (CfnOutput
       \<lparr>output_value = loadBalancerDnsName alb,
        output_description = ''ALB DNS Name''\<rparr>) this;

     (_, this) \<leftarrow> new ''CloudFrontDomainName'' (CfnOutput
       \<lparr>output_value = distributionDomainName distribution,
        output_description = ''CloudFront Domain Name''\<rparr>) this;

     (_, this) \<leftarrow> new ''DatabaseEndpoint'' (CfnOutput
       \<lparr>output_value = dbInstanceEndpointAddress dbInstance,
        output_description = ''RDS Database Endpoint''\<rparr>) this;

     Some this
   }"

section \<open>The expression \<open>new WordpressThreeTierStack(scope, id, props)\<close>\<close>








section \<open>Running the constructor\<close>

lemmas constructor_defs =
  WordpressThreeTierStack_def Stack_super_def new_def Node_addChild_def
  addIngressRule_def addListener_def
  addTargetGroups_def addContainer_def addPortMappings_def attachToApplicationTargetGroup_def
  autoScaleTaskCount_def scaleOnCpuUtilization_def

text \<open>
  The stack the constructor returns, for any scope, id and stack properties: the sixteen
  children in declaration order, each with what the later method calls have added to it.
\<close>

lemma constructor_returns:
  "WordpressThreeTierStack scope id' props = Some
    \<lparr>stack_scope = scope, stack_id = id', stack_props = props,
     children =
       [(''WordpressVPC'', Vpc \<lparr>maxAzs = 2, natGateways = 1\<rparr>),
        (''AlbSecurityGroup'', SecurityGroup
           \<lparr>sg_vpc = ''WordpressVPC'', sg_description = ''Security group for ALB'',
            allowAllOutbound = True\<rparr>
           [\<lparr>rule_peer = anyIpv4, rule_connection = tcp 80,
             rule_description = ''Allow HTTP traffic''\<rparr>,
            \<lparr>rule_peer = anyIpv4, rule_connection = tcp 443,
             rule_description = ''Allow HTTPS traffic''\<rparr>]),
        (''EcsSecurityGroup'', SecurityGroup
           \<lparr>sg_vpc = ''WordpressVPC'', sg_description = ''Security group for ECS'',
            allowAllOutbound = True\<rparr>
           [\<lparr>rule_peer = securityGroupPeer ''AlbSecurityGroup'', rule_connection = tcp 80,
             rule_description = ''Allow traffic from ALB''\<rparr>]),
        (''DbSecurityGroup'', SecurityGroup
           \<lparr>sg_vpc = ''WordpressVPC'', sg_description = ''Security group for RDS'',
            allowAllOutbound = True\<rparr>
           [\<lparr>rule_peer = securityGroupPeer ''EcsSecurityGroup'', rule_connection = tcp 3306,
             rule_description = ''Allow MySQL traffic from ECS''\<rparr>]),
        (''DBPassword'', Secret
           \<lparr>secretName = ''wordpress-db-password'',
            generateSecretString =
              \<lparr>excludePunctuation = True, passwordLength = 16,
               secretStringTemplate = None, generateStringKey = None\<rparr>\<rparr>),
        (''WordpressDatabase'', DatabaseInstance
           \<lparr>db_engine = mysql VER_8_0,
            db_instanceType = InstanceType_of BURSTABLE3 SMALL,
            db_vpc = ''WordpressVPC'',
            db_vpcSubnets = PRIVATE_WITH_EGRESS,
            db_securityGroups = [''DbSecurityGroup''],
            databaseName = ''wordpress'',
            db_credentials = fromSecret ''DBPassword'' None,
            backupRetention = days 7,
            deletionProtection = False,
            storageEncrypted = True\<rparr>),
        (''WordpressCluster'', Cluster
           \<lparr>cluster_vpc = ''WordpressVPC'', containerInsights = True\<rparr>),
        (''WordpressALB'', ApplicationLoadBalancer
           \<lparr>alb_vpc = ''WordpressVPC'', internetFacing = True,
            alb_securityGroup = ''AlbSecurityGroup''\<rparr>
           [(''HttpListener'', ApplicationListener
               \<lparr>listener_port = 80, listener_open = True\<rparr>
               [(''WordpressTargetGroup'', \<lparr>targetGroups = [''WordpressTargetGroup'']\<rparr>)])]),
        (''WordpressTaskRole'', Role
           \<lparr>assumedBy = ServicePrincipal ''ecs-tasks.amazonaws.com''\<rparr>),
        (''WordpressTaskDef'', FargateTaskDefinition
           \<lparr>memoryLimitMiB = 2048, cpu = 1024, taskRole = ''WordpressTaskRole''\<rparr>
           [(''WordpressContainer'', ContainerDefinition
               \<lparr>image = fromRegistry ''wordpress:latest'',
                logging = awsLogs ''wordpress'',
                environment =
                  [(''WORDPRESS_DB_HOST'', dbInstanceEndpointAddress ''WordpressDatabase''),
                   (''WORDPRESS_DB_NAME'', Literal ''wordpress''),
                   (''WORDPRESS_DB_USER'', Literal ''admin'')],
                secrets =
                  [(''WORDPRESS_DB_PASSWORD'', fromSecretsManager ''DBPassword'' None)]\<rparr>
               [\<lparr>containerPort = 80\<rparr>])]),
        (''WordpressService'', FargateService
           \<lparr>svc_cluster = ''WordpressCluster'',
            svc_taskDefinition = ''WordpressTaskDef'',
            desiredCount = 2,
            svc_securityGroups = [''EcsSecurityGroup''],
            svc_vpcSubnets = PRIVATE_WITH_EGRESS,
            assignPublicIp = False,
            healthCheckGracePeriod = seconds 60\<rparr>
           [''WordpressTargetGroup'']
           (Some (ScalableTaskCount \<lparr>minCapacity = 2, maxCapacity = 10\<rparr>
              [(''CpuScaling'',
                \<lparr>targetUtilizationPercent = 70, scaleInCooldown = seconds 60,
                 scaleOutCooldown = seconds 60\<rparr>)]))),
        (''WordpressTargetGroup'', ApplicationTargetGroup
           \<lparr>tg_vpc = ''WordpressVPC'', tg_port = 80, tg_protocol = HTTP, targetType = IP,
            healthCheck = \<lparr>hc_path = ''/'', hc_interval = seconds 30\<rparr>\<rparr>),
        (''WordpressDistribution'', Distribution
           \<lparr>defaultBehavior =
              \<lparr>origin = LoadBalancerV2Origin ''WordpressALB'' \<lparr>protocolPolicy = HTTP_ONLY\<rparr>,
               cachePolicy = CACHING_OPTIMIZED,
               viewerProtocolPolicy = REDIRECT_TO_HTTPS,
               allowedMethods = ALLOW_ALL,
               originRequestPolicy = ALL_VIEWER,
               compress = True\<rparr>,
            priceClass = PRICE_CLASS_100\<rparr>),
        (''LoadBalancerDNS'', CfnOutput
           \<lparr>output_value = loadBalancerDnsName ''WordpressALB'',
            output_description = ''ALB DNS Name''\<rparr>),
        (''CloudFrontDomainName'', CfnOutput
           \<lparr>output_value = distributionDomainName ''WordpressDistribution'',
            output_description = ''CloudFront Domain Name''\<rparr>),
        (''DatabaseEndpoint'', CfnOutput
           \<lparr>output_value = dbInstanceEndpointAddress ''WordpressDatabase'',
            output_description = ''RDS Database Endpoint''\<rparr>)]\<rparr>"
  by (simp add: constructor_defs)

section \<open>Firewall rules\<close>

text \<open>
  Claim C1. The security groups of the stack are exactly the three of the load balancer, the
  container service and the database, each used by its tier. The ingress rules declared on
  the load balancer's group are TCP 80 and TCP 443 from any IPv4 address and nothing else; the
  one rule on the container service's group is TCP 80 with the load balancer's group as its
  source; the one rule on the database's group is TCP 3306 with the container service's group
  as its source.
\<close>

theorem security_group_chain:
  "\<exists>g. WordpressThreeTierStack scope id' props = Some g
    \<and> map fst (filter (is_SecurityGroup \<circ> snd) (children g))
        = [''AlbSecurityGroup'', ''EcsSecurityGroup'', ''DbSecurityGroup'']
    \<and> (\<exists>p rules. map_of (children g) ''AlbSecurityGroup'' = Some (SecurityGroup p rules)
          \<and> map (\<lambda>r. (rule_peer r, rule_connection r)) rules
              = [(anyIpv4, tcp 80), (anyIpv4, tcp 443)])
    \<and> (\<exists>p rules. map_of (children g) ''EcsSecurityGroup'' = Some (SecurityGroup p rules)
          \<and> map (\<lambda>r. (rule_peer r, rule_connection r)) rules
              = [(securityGroupPeer ''AlbSecurityGroup'', tcp 80)])
    \<and> (\<exists>p rules. map_of (children g) ''DbSecurityGroup'' = Some (SecurityGroup p rules)
          \<and> map (\<lambda>r. (rule_peer r, rule_connection r)) rules
              = [(securityGroupPeer ''EcsSecurityGroup'', tcp 3306)])
    \<and> (\<exists>p ls. map_of (children g) ''WordpressALB'' = Some (ApplicationLoadBalancer p ls)
          \<and> alb_securityGroup p = ''AlbSecurityGroup'')
    \<and> (\<exists>p tgs sc. map_of (children g) ''WordpressService'' = Some (FargateService p tgs sc)
          \<and> svc_securityGroups p = [''EcsSecurityGroup''])
    \<and> (\<exists>p. map_of (children g) ''WordpressDatabase'' = Some (DatabaseInstance p)
          \<and> db_securityGroups p = [''DbSecurityGroup''])"
  by (simp add: constructor_returns)

section \<open>Database credentials and the container's environment\<close>

text \<open>
  Claim C2. Run at scope \<open>()\<close>, id \<open>WordpressStack\<close> and no stack properties, the constructor
  gives the container the database's endpoint address as \<open>WORDPRESS_DB_HOST\<close>, the database's
  name \<open>wordpress\<close> as \<open>WORDPRESS_DB_NAME\<close>, and as \<open>WORDPRESS_DB_PASSWORD\<close> the secret
  \<open>DBPassword\<close> that is also the database's credentials. It gives the container the user
  \<open>admin\<close> as \<open>WORDPRESS_DB_USER\<close>, but the database's credentials carry no master
  username: \<open>fromSecret\<close> is called with the secret alone, and the secret is generated with
  no template that would hold one.
\<close>

theorem database_user_not_in_credentials:
  "\<exists>g. WordpressThreeTierStack () ''WordpressStack'' (None :: unit option) = Some g
    \<and> (\<exists>db sec td opts mappings.
          map_of (children g) ''WordpressDatabase'' = Some (DatabaseInstance db)
        \<and> map_of (children g) ''DBPassword'' = Some (Secret sec)
        \<and> map_of (children g) ''WordpressTaskDef''
            = Some (FargateTaskDefinition td
                [(''WordpressContainer'', ContainerDefinition opts mappings)])
        \<and> map_of (environment opts) ''WORDPRESS_DB_HOST''
            = Some (dbInstanceEndpointAddress ''WordpressDatabase'')
        \<and> map_of (environment opts) ''WORDPRESS_DB_NAME'' = Some (Literal (databaseName db))
        \<and> databaseName db = ''wordpress''
        \<and> map_of (secrets opts) ''WORDPRESS_DB_PASSWORD''
            = Some (fromSecretsManager (credentials_secret (db_credentials db)) None)
        \<and> credentials_secret (db_credentials db) = ''DBPassword''
        \<and> map_of (environment opts) ''WORDPRESS_DB_USER'' = Some (Literal ''admin'')
        \<and> credentials_username (db_credentials db) = None
        \<and> secretStringTemplate (generateSecretString sec) = None
        \<and> generateStringKey (generateSecretString sec) = None)"
  by (simp add: constructor_returns)

section \<open>The three tiers\<close>

text \<open>
  Claim C3. The stack declares one virtual network, one CDN distribution, one application load
  balancer, one Fargate service and one database instance. The distribution's origin is the
  load balancer; the load balancer is internet-facing and its one listener, on port 80,
  forwards to the target group to which the Fargate service is attached; the database engine
  is MySQL 8.0. The load balancer, the target group, the cluster of the service and the
  database are all placed in the one declared network.
\<close>

theorem three_tiers_in_one_network:
  "\<exists>g. WordpressThreeTierStack scope id' props = Some g
    \<and> map fst (filter (is_Vpc \<circ> snd) (children g)) = [''WordpressVPC'']
    \<and> map fst (filter (is_Distribution \<circ> snd) (children g)) = [''WordpressDistribution'']
    \<and> map fst (filter (is_ApplicationLoadBalancer \<circ> snd) (children g)) = [''WordpressALB'']
    \<and> map fst (filter (is_FargateService \<circ> snd) (children g)) = [''WordpressService'']
    \<and> map fst (filter (is_DatabaseInstance \<circ> snd) (children g)) = [''WordpressDatabase'']
    \<and> (\<exists>p op. map_of (children g) ''WordpressDistribution'' = Some (Distribution p)
          \<and> origin (defaultBehavior p) = LoadBalancerV2Origin ''WordpressALB'' op)
    \<and> (\<exists>p lp added. map_of (children g) ''WordpressALB''
            = Some (ApplicationLoadBalancer p [(''HttpListener'', ApplicationListener lp added)])
          \<and> internetFacing p
          \<and> alb_vpc p = ''WordpressVPC''
          \<and> listener_port lp = 80
          \<and> concat (map (targetGroups \<circ> snd) added) = [''WordpressTargetGroup''])
    \<and> (\<exists>p. map_of (children g) ''WordpressTargetGroup'' = Some (ApplicationTargetGroup p)
          \<and> tg_vpc p = ''WordpressVPC'')
    \<and> (\<exists>p sc. map_of (children g) ''WordpressService''
            = Some (FargateService p [''WordpressTargetGroup''] sc)
          \<and> svc_cluster p = ''WordpressCluster'')
    \<and> (\<exists>p. map_of (children g) ''WordpressCluster'' = Some (Cluster p)
          \<and> cluster_vpc p = ''WordpressVPC'')
    \<and> (\<exists>p. map_of (children g) ''WordpressDatabase'' = Some (DatabaseInstance p)
          \<and> db_engine p = mysql VER_8_0
          \<and> db_vpc p = ''WordpressVPC'')"
  by (simp add: constructor_returns)

section \<open>Subnet placement\<close>

text \<open>
  Claim C4. The container service and the database instance are both declared in
  private-with-egress subnets, the service's tasks get no public IP, and the one load balancer
  of the stack, the only kind of construct that has the property, is declared internet-facing.
\<close>

theorem private_subnet_placement:
  "\<exists>g. WordpressThreeTierStack scope id' props = Some g
    \<and> (\<exists>p tgs sc. map_of (children g) ''WordpressService'' = Some (FargateService p tgs sc)
          \<and> svc_vpcSubnets p = PRIVATE_WITH_EGRESS
          \<and> assignPublicIp p = False)
    \<and> (\<exists>p. map_of (children g) ''WordpressDatabase'' = Some (DatabaseInstance p)
          \<and> db_vpcSubnets p = PRIVATE_WITH_EGRESS)
    \<and> map fst (filter (is_ApplicationLoadBalancer \<circ> snd) (children g)) = [''WordpressALB'']
    \<and> (\<exists>p ls. map_of (children g) ''WordpressALB'' = Some (ApplicationLoadBalancer p ls)
          \<and> internetFacing p = True)"
  by (simp add: constructor_returns)

section \<open>Outputs\<close>

text \<open>
  Claim C5. The outputs of the stack are exactly three, in this order: the DNS name of the
  load balancer, the domain name of the CDN distribution and the endpoint address of the
  database instance, each of a construct of that kind declared in the stack.
\<close>

theorem stack_outputs:
  "\<exists>g. WordpressThreeTierStack scope id' props = Some g
    \<and> filter (is_CfnOutput \<circ> snd) (children g)
        = [(''LoadBalancerDNS'', CfnOutput
              \<lparr>output_value = loadBalancerDnsName ''WordpressALB'',
               output_description = ''ALB DNS Name''\<rparr>),
           (''CloudFrontDomainName'', CfnOutput
              \<lparr>output_value = distributionDomainName ''WordpressDistribution'',
               output_description = ''CloudFront Domain Name''\<rparr>),
           (''DatabaseEndpoint'', CfnOutput
              \<lparr>output_value = dbInstanceEndpointAddress ''WordpressDatabase'',
               output_description = ''RDS Database Endpoint''\<rparr>)]
    \<and> (\<exists>p ls. map_of (children g) ''WordpressALB'' = Some (ApplicationLoadBalancer p ls))
    \<and> (\<exists>p. map_of (children g) ''WordpressDistribution'' = Some (Distribution p))
    \<and> (\<exists>p. map_of (children g) ''WordpressDatabase'' = Some (DatabaseInstance p))"
  by (simp add: constructor_returns)

section \<open>Autoscaling\<close>

text \<open>
  Claim C6. The service's task count scales between a minimum of 2 and a maximum of 10, with
  2 at most 10; it has one scaling policy, on CPU utilisation with a target of 70 percent and
  scale-in and scale-out cooldowns of 60 seconds each; the desired count of 2 lies between the
  minimum and the maximum.
\<close>

theorem autoscaling_thresholds:
  "\<exists>g. WordpressThreeTierStack scope id' props = Some g
    \<and> (\<exists>p tgs bounds policy.
          map_of (children g) ''WordpressService''
            = Some (FargateService p tgs
                (Some (ScalableTaskCount bounds [(''CpuScaling'', policy)])))
        \<and> minCapacity bounds = 2
        \<and> maxCapacity bounds = 10
        \<and> minCapacity bounds \<le> maxCapacity bounds
        \<and> targetUtilizationPercent policy = 70
        \<and> toSeconds (scaleInCooldown policy) = 60
        \<and> toSeconds (scaleOutCooldown policy) = 60
        \<and> desiredCount p = 2
        \<and> minCapacity bounds \<le> desiredCount p
        \<and> desiredCount p \<le> maxCapacity bounds)"
  by (simp add: constructor_returns)

section \<open>Two runs of the constructor\<close>




section \<open>Errors\<close>



section \<open>CDN behaviour\<close>

text \<open>
  Claim C9. The distribution's default behaviour has the viewer protocol policy
  redirect-to-HTTPS, reaches its origin, the load balancer, with the origin protocol policy
  HTTP-only, allows all HTTP methods and has compression on.
\<close>

theorem distribution_default_behavior:
  "\<exists>g. WordpressThreeTierStack scope id' props = Some g
    \<and> (\<exists>p op. map_of (children g) ''WordpressDistribution'' = Some (Distribution p)
          \<and> viewerProtocolPolicy (defaultBehavior p) = REDIRECT_TO_HTTPS
          \<and> origin (defaultBehavior p) = LoadBalancerV2Origin ''WordpressALB'' op
          \<and> protocolPolicy op = HTTP_ONLY
          \<and> allowedMethods (defaultBehavior p) = ALLOW_ALL
          \<and> compress (defaultBehavior p) = True)
    \<and> (\<exists>p ls. map_of (children g) ''WordpressALB'' = Some (ApplicationLoadBalancer p ls))"
  by (simp add: constructor_returns)

section \<open>Database protection\<close>

text \<open>
  Claim C10. The database instance is declared with deletion protection off, storage
  encryption on and a backup retention of 7 days.
\<close>

theorem database_protection_settings:
  "\<exists>g. WordpressThreeTierStack scope id' props = Some g
    \<and> (\<exists>p. map_of (children g) ''WordpressDatabase'' = Some (DatabaseInstance p)
          \<and> deletionProtection p = False
          \<and> storageEncrypted p = True
          \<and> backupRetention p = days 7
          \<and> toSeconds (backupRetention p) = 7 * 86400)"
  by (simp add: constructor_returns)

end
